theory Spec2Isabelle
  imports Complex_Main "HOL-Library.Sublist"
begin

section \<open>Control-point list of the path generation add-on\<close>

text \<open>
  A shallow embedding of the operators of \<^verbatim>\<open>src/__init__.py\<close>: the scene properties the
  add-on registers (\<^verbatim>\<open>control_points\<close>, \<^verbatim>\<open>active_control_point_index\<close>, \<^verbatim>\<open>curve_type\<close>,
  \<^verbatim>\<open>curve_name\<close>), the part of the host's data (\<^verbatim>\<open>bpy.data\<close>) the operators read and
  write, and one HOL function per operator's \<^verbatim>\<open>execute\<close>.

  Coordinates are float properties. The operators only copy them and assign the
  constants 0.0 and 1.0, so they are modelled as \<^typ>\<open>real\<close>; no arithmetic is done on them.
  Operator arguments and \<^verbatim>\<open>active_control_point_index\<close> are Python integers, modelled as
  \<^typ>\<open>int\<close>. A Python exception is the value \<open>Inl e\<close>; an operator that returns gives
  \<open>Inr (scene, reports, status)\<close>.
\<close>

subsection \<open>Python values\<close>

datatype py_error = IndexError

text \<open>Decimal rendering of an integer, as an f-string prints it.\<close>

definition digit_char :: "nat \<Rightarrow> char" where
  "digit_char d = ''0123456789'' ! (d mod 10)"

function str_nat :: "nat \<Rightarrow> string" where
  "str_nat n = (if n < 10 then [digit_char n] else str_nat (n div 10) @ [digit_char n])"
  by pat_completeness auto
termination
  by (relation "measure id") auto

declare str_nat.simps [simp del]

definition str_int :: "int \<Rightarrow> string" where
  "str_int i = (if i < 0 then CHR ''-'' # str_nat (nat (- i)) else str_nat (nat i))"

text \<open>
  Indexing a collection with a Python integer: a negative index counts from the end, an
  index outside the collection raises \<^verbatim>\<open>IndexError\<close>. The result is the position of the
  item, which stands for the reference Python holds to it.
\<close>

definition collection_index :: "'a list \<Rightarrow> int \<Rightarrow> py_error + nat" where
  "collection_index xs i =
     (if i < 0 then
        (if - i \<le> int (length xs) then Inr (nat (int (length xs) + i)) else Inl IndexError)
      else if i < int (length xs) then Inr (nat i)
      else Inl IndexError)"

text \<open>A \<^verbatim>\<open>for\<close> loop whose body may raise: the first exception ends the loop.\<close>

fun for_each :: "'a list \<Rightarrow> ('a \<Rightarrow> 's \<Rightarrow> py_error + 's) \<Rightarrow> 's \<Rightarrow> py_error + 's" where
  "for_each [] body s = Inr s"
| "for_each (a # as) body s =
     (case body a s of Inl e \<Rightarrow> Inl e | Inr s' \<Rightarrow> for_each as body s')"

text \<open>\<^verbatim>\<open>range(a, b, -1)\<close>: a, a - 1, ... down to b + 1.\<close>

function range_down :: "int \<Rightarrow> int \<Rightarrow> int list" where
  "range_down a b = (if b < a then a # range_down (a - 1) b else [])"
  by pat_completeness auto
termination
  by (relation "measure (\<lambda>(a, b). nat (a - b))") auto

declare range_down.simps [simp del]

subsection \<open>Data model\<close>

type_synonym vec3 = "real \<times> real \<times> real"
type_synonym vec4 = "real \<times> real \<times> real \<times> real"

text \<open>
  \<^verbatim>\<open>ControlPointProperty\<close>: the fields \<^verbatim>\<open>x\<close>, \<^verbatim>\<open>y\<close>, \<^verbatim>\<open>z\<close> (here \<open>cp_x\<close>, \<open>cp_y\<close>, \<open>cp_z\<close>) and
  \<^verbatim>\<open>sphere_name\<close>, with the defaults the property declarations give.
\<close>

record control_point =
  cp_x :: real
  cp_y :: real
  cp_z :: real
  sphere_name :: string

definition default_control_point :: control_point where
  "default_control_point = \<lparr>cp_x = 0, cp_y = 0, cp_z = 0, sphere_name = []\<rparr>"

definition position :: "control_point \<Rightarrow> vec3" where
  "position p = (cp_x p, cp_y p, cp_z p)"

text \<open>Curve data as \<^verbatim>\<open>OBJECT_OT_generate_curve\<close> fills it.\<close>

datatype handle_type = FREE | VECTOR | ALIGNED | AUTO

record bezier_point =
  bp_co :: vec3
  handle_left_type :: handle_type
  handle_right_type :: handle_type

datatype spline_type = NURBS | BEZIER

record spline =
  spline_kind :: spline_type
  points :: "vec4 list"
  bezier_points :: "bezier_point list"
  order_u :: int
  use_endpoint_u :: bool

record curve_data =
  cu_name :: string
  dimensions :: string
  splines :: "spline list"

datatype object_data = Sphere_Mesh | Curve curve_data

record scene_object =
  ob_name :: string
  ob_location :: vec3
  users_collection :: "string list"
  ob_materials :: "string list"
  ob_data :: object_data

text \<open>
  The scene: the four properties \<^verbatim>\<open>register\<close> defines on \<^verbatim>\<open>bpy.types.Scene\<close>, and the
  data blocks of \<^verbatim>\<open>bpy.data\<close> the operators touch (objects, the names of the collections
  and of the materials, curves).
\<close>

record scene =
  curve_type :: string
  control_points :: "control_point list"
  active_control_point_index :: int
  curve_name :: string
  objects :: "scene_object list"
  collections :: "string list"
  materials :: "string list"
  curves :: "curve_data list"

datatype report_level = INFO | WARNING
datatype op_status = FINISHED | CANCELLED

type_synonym op_result = "py_error + (scene \<times> (report_level \<times> string) list \<times> op_status)"

definition positions :: "scene \<Rightarrow> vec3 list" where
  "positions s = map position (control_points s)"

subsection \<open>The host's collection operations\<close>

text \<open>
  Modelled from the spec: the methods \<^verbatim>\<open>add\<close>, \<^verbatim>\<open>remove\<close> and \<^verbatim>\<open>move\<close> of the host's
  collection property are not part of the repository. \<^verbatim>\<open>add()\<close> appends an item with
  the declared defaults. \<^verbatim>\<open>remove(index)\<close> removes the item at the index and leaves the
  remaining order intact. \<^verbatim>\<open>move(old, new)\<close> removes the item at \<open>old\<close> and reinserts it
  at \<open>new\<close>, the items between the two positions shifting by one. An index outside the
  collection leaves it as it is (the host checks both indices).
\<close>

definition collection_add :: "scene \<Rightarrow> scene" where
  "collection_add s = s\<lparr>control_points := control_points s @ [default_control_point]\<rparr>"

definition collection_remove :: "int \<Rightarrow> 'a list \<Rightarrow> 'a list" where
  "collection_remove key xs =
     (if 0 \<le> key \<and> key < int (length xs) then take (nat key) xs @ drop (Suc (nat key)) xs
      else xs)"

definition collection_move :: "int \<Rightarrow> int \<Rightarrow> 'a list \<Rightarrow> 'a list" where
  "collection_move key pos xs =
     (if 0 \<le> key \<and> key < int (length xs) \<and> 0 \<le> pos \<and> pos < int (length xs) \<and> key \<noteq> pos
      then (let item = xs ! nat key; rest = take (nat key) xs @ drop (Suc (nat key)) xs
            in take (nat pos) rest @ item # drop (nat pos) rest)
      else xs)"

subsection \<open>Spheres\<close>

text \<open>
  \<^verbatim>\<open>cleanup_sphere\<close>: removes the object of that name, if the name is not empty and the
  object exists.
\<close>

definition cleanup_sphere :: "string \<Rightarrow> scene \<Rightarrow> scene" where
  "cleanup_sphere name s =
     (if name \<noteq> [] then
        (case find (\<lambda>ob. ob_name ob = name) (objects s) of
           Some sphere \<Rightarrow> s\<lparr>objects := remove1 sphere (objects s)\<rparr>
         | None \<Rightarrow> s)
      else s)"

definition set_sphere_name :: "nat \<Rightarrow> string \<Rightarrow> scene \<Rightarrow> scene" where
  "set_sphere_name k name s =
     s\<lparr>control_points := (control_points s)[k := (control_points s ! k)\<lparr>sphere_name := name\<rparr>]\<rparr>"

text \<open>
  \<^verbatim>\<open>create_control_point_sphere(context, control_point, index)\<close>. The control point is
  given by its position \<open>k\<close> in the collection (a reference obtained from
  \<open>collection_index\<close> or from \<^verbatim>\<open>enumerate\<close>); \<open>index\<close> is the integer the name is built
  from. The sphere is created at the point's coordinates, renamed, moved to the
  collection "Control Points" and given the red material, both created when missing.
\<close>

definition create_control_point_sphere :: "nat \<Rightarrow> int \<Rightarrow> scene \<Rightarrow> scene" where
  "create_control_point_sphere k index s =
     (let name = ''ControlPoint_'' @ str_int index;
          s1 = set_sphere_name k name s;
          s2 = cleanup_sphere (sphere_name (control_points s1 ! k)) s1;
          s3 = (if ''Control Points'' \<in> set (collections s2) then s2
                else s2\<lparr>collections := collections s2 @ [''Control Points'']\<rparr>);
          sphere = \<lparr>ob_name = name, ob_location = position (control_points s3 ! k),
                    users_collection = [''Control Points''],
                    ob_materials = [''RedControlPointMaterial''], ob_data = Sphere_Mesh\<rparr>;
          s4 = s3\<lparr>objects := objects s3 @ [sphere]\<rparr>
      in (if ''RedControlPointMaterial'' \<in> set (materials s4) then s4
          else s4\<lparr>materials := materials s4 @ [''RedControlPointMaterial'']\<rparr>))"

text \<open>
  \<^verbatim>\<open>ControlPointProperty.update_coords\<close>, the callback of the three coordinate
  properties: it looks the point up in the collection and recreates its sphere under
  the index found. Assigning a coordinate runs it.
\<close>

definition update_coords :: "nat \<Rightarrow> scene \<Rightarrow> scene" where
  "update_coords k s =
     (case find (\<lambda>i. i = k) [0..<length (control_points s)] of
        Some i \<Rightarrow> create_control_point_sphere k (int i) s
      | None \<Rightarrow> s)"

definition set_x :: "nat \<Rightarrow> real \<Rightarrow> scene \<Rightarrow> scene" where
  "set_x k v s =
     update_coords k
       (s\<lparr>control_points := (control_points s)[k := (control_points s ! k)\<lparr>cp_x := v\<rparr>]\<rparr>)"

definition set_y :: "nat \<Rightarrow> real \<Rightarrow> scene \<Rightarrow> scene" where
  "set_y k v s =
     update_coords k
       (s\<lparr>control_points := (control_points s)[k := (control_points s ! k)\<lparr>cp_y := v\<rparr>]\<rparr>)"

definition set_z :: "nat \<Rightarrow> real \<Rightarrow> scene \<Rightarrow> scene" where
  "set_z k v s =
     update_coords k
       (s\<lparr>control_points := (control_points s)[k := (control_points s ! k)\<lparr>cp_z := v\<rparr>]\<rparr>)"

text \<open>\<^verbatim>\<open>point.x, point.y, point.z = a, b, c\<close>: three assignments, left to right.\<close>

definition set_xyz :: "nat \<Rightarrow> vec3 \<Rightarrow> scene \<Rightarrow> scene" where
  "set_xyz k v s = (case v of (a, b, c) \<Rightarrow> set_z k c (set_y k b (set_x k a s)))"

text \<open>
  The loop that ends \<^verbatim>\<open>OBJECT_OT_add_control_point\<close> and
  \<^verbatim>\<open>OBJECT_OT_reorder_control_point\<close>: every point is renamed after its index and its
  sphere recreated.
\<close>

definition resync_step :: "nat \<Rightarrow> scene \<Rightarrow> scene" where
  "resync_step i s =
     create_control_point_sphere i (int i)
       (set_sphere_name i (''ControlPoint_'' @ str_int (int i)) s)"

definition resync_all :: "scene \<Rightarrow> scene" where
  "resync_all s = fold resync_step [0..<length (control_points s)] s"

text \<open>The loops that clean up the sphere of every point.\<close>

definition cleanup_all :: "scene \<Rightarrow> scene" where
  "cleanup_all s = fold (\<lambda>p. cleanup_sphere (sphere_name p)) (control_points s) s"

subsection \<open>Operators\<close>

text \<open>
  \<^verbatim>\<open>OBJECT_OT_add_control_point.execute\<close>. The shift loop runs over
  \<^verbatim>\<open>range(num_points, index, -1)\<close>; \<open>existing\<close> holds the coordinates stored before the new
  point was added.
\<close>

definition shift_step :: "vec3 list \<Rightarrow> int \<Rightarrow> scene \<Rightarrow> py_error + scene" where
  "shift_step existing i s =
     (let prev_idx = i - 1 in
      if prev_idx \<ge> 0 \<and> prev_idx < int (length existing) then
        (case collection_index (control_points s) i of
           Inl e \<Rightarrow> Inl e
         | Inr k \<Rightarrow> Inr (set_xyz k (existing ! nat prev_idx) s))
      else Inr s)"

definition add_control_point :: "int \<Rightarrow> scene \<Rightarrow> op_result" where
  "add_control_point index s =
     (let num_points = int (length (control_points s)) in
      if index < 0 \<or> index > num_points then
        (let new_point = length (control_points s);
             s1 = collection_add s;
             s2 = set_xyz new_point (0, 0, 0) s1;
             s3 = set_sphere_name new_point (''ControlPoint_'' @ str_int num_points) s2;
             s4 = create_control_point_sphere new_point num_points s3
         in Inr (s4\<lparr>active_control_point_index := num_points\<rparr>, [], FINISHED))
      else
        (let existing_points = map position (control_points s);
             s1 = cleanup_all s;
             s2 = collection_add s1
         in case for_each (range_down num_points index) (shift_step existing_points) s2 of
              Inl e \<Rightarrow> Inl e
            | Inr s3 \<Rightarrow>
                (case collection_index (control_points s3) index of
                   Inl e \<Rightarrow> Inl e
                 | Inr insert_point \<Rightarrow>
                     (let s4 = set_xyz insert_point (0, 0, 0) s3;
                          s5 = resync_all s4
                      in Inr (s5\<lparr>active_control_point_index := index\<rparr>, [], FINISHED)))))"

text \<open>\<^verbatim>\<open>OBJECT_OT_remove_control_point.execute\<close>.\<close>

definition remove_control_point :: "int \<Rightarrow> scene \<Rightarrow> op_result" where
  "remove_control_point index s =
     (if 0 \<le> index \<and> index < int (length (control_points s)) then
        (case collection_index (control_points s) index of
           Inl e \<Rightarrow> Inl e
         | Inr k \<Rightarrow>
             (let s1 = cleanup_sphere (sphere_name (control_points s ! k)) s;
                  s2 = s1\<lparr>control_points := collection_remove index (control_points s1)\<rparr>
              in Inr (s2, [(INFO, ''Removed control point '' @ str_int (index + 1))], FINISHED)))
      else Inr (s, [(WARNING, ''Invalid point index'')], FINISHED))"

text \<open>\<^verbatim>\<open>OBJECT_OT_move_control_point.execute\<close>.\<close>

datatype direction = UP | DOWN

definition move_control_point :: "direction \<Rightarrow> int \<Rightarrow> scene \<Rightarrow> op_result" where
  "move_control_point dir index s =
     (let num_points = int (length (control_points s));
          old_index = index;
          new_index = (if dir = UP then old_index - 1 else old_index + 1)
      in
      if 0 \<le> new_index \<and> new_index < num_points then
        (case collection_index (control_points s) old_index of
           Inl e \<Rightarrow> Inl e
         | Inr current_point \<Rightarrow>
        (case collection_index (control_points s) new_index of
           Inl e \<Rightarrow> Inl e
         | Inr target_point \<Rightarrow>
        (let s1 = cleanup_sphere (sphere_name (control_points s ! current_point)) s;
             s2 = cleanup_sphere (sphere_name (control_points s1 ! target_point)) s1;
             s3 = s2\<lparr>control_points := collection_move old_index new_index (control_points s2)\<rparr>;
             s4 = s3\<lparr>active_control_point_index := new_index\<rparr>
         in
         case collection_index (control_points s4) old_index of
           Inl e \<Rightarrow> Inl e
         | Inr a \<Rightarrow>
        (let s5 = set_sphere_name a (''ControlPoint_'' @ str_int old_index) s4 in
         case collection_index (control_points s5) new_index of
           Inl e \<Rightarrow> Inl e
         | Inr b \<Rightarrow>
        (let s6 = set_sphere_name b (''ControlPoint_'' @ str_int new_index) s5 in
         case collection_index (control_points s6) old_index of
           Inl e \<Rightarrow> Inl e
         | Inr a' \<Rightarrow>
        (let s7 = create_control_point_sphere a' old_index s6 in
         case collection_index (control_points s7) new_index of
           Inl e \<Rightarrow> Inl e
         | Inr b' \<Rightarrow>
             Inr (create_control_point_sphere b' new_index s7, [], FINISHED)))))))
      else Inr (s, [], FINISHED))"

text \<open>\<^verbatim>\<open>OBJECT_OT_reorder_control_point.execute\<close>.\<close>

definition reorder_control_point :: "int \<Rightarrow> int \<Rightarrow> scene \<Rightarrow> op_result" where
  "reorder_control_point old_index new_index s =
     (let s1 = cleanup_all s;
          s2 = s1\<lparr>control_points := collection_move old_index new_index (control_points s1)\<rparr>;
          s3 = resync_all s2
      in Inr (s3\<lparr>active_control_point_index := new_index\<rparr>, [], FINISHED))"

text \<open>
  \<^verbatim>\<open>OBJECT_OT_show_control_points.execute\<close> and \<^verbatim>\<open>OBJECT_OT_hide_control_points.execute\<close>.
\<close>

definition show_control_points :: "scene \<Rightarrow> op_result" where
  "show_control_points s =
     (let s1 = s\<lparr>objects := filter (\<lambda>ob. \<not> prefix ''ControlPoint_'' (ob_name ob)) (objects s)\<rparr>;
          s2 = fold (\<lambda>i. create_control_point_sphere i (int i)) [0..<length (control_points s1)] s1
      in Inr (s2, [(INFO, ''Control points displayed as spheres'')], FINISHED))"

definition hide_control_points :: "scene \<Rightarrow> op_result" where
  "hide_control_points s =
     (let s1 = (if ''Control Points'' \<in> set (collections s)
                then s\<lparr>objects := filter (\<lambda>ob. ''Control Points'' \<notin> set (users_collection ob))
                                      (objects s)\<rparr>
                else s)
      in Inr (s1, [(INFO, ''Control points hidden'')], FINISHED))"

text \<open>
  \<^verbatim>\<open>OBJECT_OT_generate_curve.execute\<close>.

  Modelled from the spec: the host's curve data is not part of the repository. A new
  spline holds one point; \<^verbatim>\<open>points.add(k)\<close> and \<^verbatim>\<open>bezier_points.add(k)\<close> append \<open>k\<close> points;
  an assignment to a field of a point or of the spline stores the value assigned. The
  fields of a point the code has not assigned yet are placeholders.
\<close>

definition default_point :: vec4 where
  "default_point = (0, 0, 0, 0)"

definition default_bezier_point :: bezier_point where
  "default_bezier_point = \<lparr>bp_co = (0, 0, 0), handle_left_type = FREE, handle_right_type = FREE\<rparr>"

definition splines_new :: "spline_type \<Rightarrow> spline" where
  "splines_new t =
     \<lparr>spline_kind = t,
      points = (if t = NURBS then [default_point] else []),
      bezier_points = (if t = BEZIER then [default_bezier_point] else []),
      order_u = 4, use_endpoint_u = False\<rparr>"

definition points_add :: "int \<Rightarrow> spline \<Rightarrow> spline" where
  "points_add k sp = sp\<lparr>points := points sp @ replicate (nat k) default_point\<rparr>"

definition bezier_points_add :: "int \<Rightarrow> spline \<Rightarrow> spline" where
  "bezier_points_add k sp =
     sp\<lparr>bezier_points := bezier_points sp @ replicate (nat k) default_bezier_point\<rparr>"

text \<open>The bodies of the two \<^verbatim>\<open>for i, point in enumerate(control_points)\<close> loops.\<close>

definition nurbs_step :: "nat \<times> control_point \<Rightarrow> spline \<Rightarrow> py_error + spline" where
  "nurbs_step ip sp =
     (case ip of (i, point) \<Rightarrow>
        (case collection_index (points sp) (int i) of
           Inl e \<Rightarrow> Inl e
         | Inr k \<Rightarrow>
             Inr (sp\<lparr>points := (points sp)[k := (cp_x point, cp_y point, cp_z point, 1)]\<rparr>)))"

definition bezier_step :: "nat \<times> control_point \<Rightarrow> spline \<Rightarrow> py_error + spline" where
  "bezier_step ip sp =
     (case ip of (i, point) \<Rightarrow>
        (case collection_index (bezier_points sp) (int i) of
           Inl e \<Rightarrow> Inl e
         | Inr k \<Rightarrow>
             Inr (sp\<lparr>bezier_points := (bezier_points sp)
                    [k := (bezier_points sp ! k)
                       \<lparr>bp_co := (cp_x point, cp_y point, cp_z point),
                        handle_right_type := AUTO, handle_left_type := AUTO\<rparr>]\<rparr>)))"

text \<open>
  Modelled from the spec: the host's property \<^verbatim>\<open>Spline.order_u\<close> is not part of the
  repository. It is bounded to the range from 2 to 64, and an assignment stores the value
  brought into that range.
\<close>

definition order_u_set :: "int \<Rightarrow> spline \<Rightarrow> spline" where
  "order_u_set v sp = sp\<lparr>order_u := max 2 (min 64 v)\<rparr>"

definition build_spline :: "string \<Rightarrow> control_point list \<Rightarrow> py_error + spline" where
  "build_spline ctype cps =
     (if ctype = ''NURBS'' then
        (case for_each (enumerate 0 cps) nurbs_step
                (points_add (int (length cps) - 1) (splines_new NURBS)) of
           Inl e \<Rightarrow> Inl e
         | Inr sp \<Rightarrow>
             Inr ((order_u_set (min 4 (int (length cps))) sp)\<lparr>use_endpoint_u := True\<rparr>))
      else
        for_each (enumerate 0 cps) bezier_step
          (bezier_points_add (int (length cps) - 1) (splines_new BEZIER)))"

text \<open>
  Modelled from the spec: the naming of the host's data blocks is not part of the
  repository. \<^verbatim>\<open>bpy.data.curves.new\<close> and \<^verbatim>\<open>bpy.data.objects.new\<close> create the block under the
  name requested when no block of that kind has it; when the name is in use the host
  appends the first free suffix \<^verbatim>\<open>.001\<close>, \<^verbatim>\<open>.002\<close>, ... (a second curve "Path" becomes
  "Path.001", a second object "PathObj" becomes "PathObj.001"). The host also limits the
  length of a name (63 bytes); the model does not cut names, and what is proved about
  the name of a block is stated for names within that limit.
\<close>

definition suffix3 :: "nat \<Rightarrow> string" where
  "suffix3 k = replicate (3 - length (str_nat k)) CHR ''0'' @ str_nat k"

definition host_unique_name :: "string list \<Rightarrow> string \<Rightarrow> string" where
  "host_unique_name taken name =
     (if name \<notin> set taken then name
      else (case find (\<lambda>c. c \<notin> set taken)
                   (map (\<lambda>k. name @ ''.'' @ suffix3 k) [1..<length taken + 2]) of
              Some c \<Rightarrow> c
            | None \<Rightarrow> name))"

definition generate_curve :: "scene \<Rightarrow> op_result" where
  "generate_curve s =
     (let name = (if curve_name s \<noteq> [] then curve_name s else ''GeneratedCurve'') in
      if control_points s = [] then Inr (s, [(WARNING, ''No control points added!'')], CANCELLED)
      else
        (case build_spline (curve_type s) (control_points s) of
           Inl e \<Rightarrow> Inl e
         | Inr sp \<Rightarrow>
             (let cd = \<lparr>cu_name = host_unique_name (map cu_name (curves s)) name,
                        dimensions = ''3D'', splines = [sp]\<rparr>;
                  curve_obj = \<lparr>ob_name = host_unique_name (map ob_name (objects s)) (name @ ''Obj''),
                               ob_location = (0, 0, 0),
                               users_collection = [''Scene Collection''], ob_materials = [],
                               ob_data = Curve cd\<rparr>
              in Inr (s\<lparr>curves := curves s @ [cd], objects := objects s @ [curve_obj]\<rparr>,
                      [(INFO, ''Generated '' @ curve_type s @ '' curve: '' @ name)],
                      FINISHED))))"

text \<open>The curve objects of a scene, in the order of their creation.\<close>

definition curve_objects :: "scene \<Rightarrow> scene_object list" where
  "curve_objects s = filter (\<lambda>ob. ob_data ob \<noteq> Sphere_Mesh) (objects s)"

subsection \<open>Marker names and example scenes\<close>

text \<open>
  Marker-index agreement: every point whose \<^verbatim>\<open>sphere_name\<close> is not empty is named
  \<^verbatim>\<open>ControlPoint_<i>\<close> after its index \<open>i\<close> in the collection.
\<close>

definition marker_agreement :: "scene \<Rightarrow> bool" where
  "marker_agreement s =
     list_all (\<lambda>ip. sphere_name (snd ip) = [] \<or>
                     sphere_name (snd ip) = ''ControlPoint_'' @ str_int (int (fst ip)))
       (enumerate 0 (control_points s))"

text \<open>
  Scenes to run the operators on: the points given, each with its sphere in the
  collection "Control Points", as the operators leave them.
\<close>

definition example_point :: "real \<Rightarrow> real \<Rightarrow> real \<Rightarrow> string \<Rightarrow> control_point" where
  "example_point a b c name = \<lparr>cp_x = a, cp_y = b, cp_z = c, sphere_name = name\<rparr>"

definition sphere_of :: "control_point \<Rightarrow> scene_object" where
  "sphere_of p =
     \<lparr>ob_name = sphere_name p, ob_location = position p,
      users_collection = [''Control Points''],
      ob_materials = [''RedControlPointMaterial''], ob_data = Sphere_Mesh\<rparr>"

definition example_scene :: "string \<Rightarrow> control_point list \<Rightarrow> scene" where
  "example_scene ctype cps =
     \<lparr>curve_type = ctype, control_points = cps, active_control_point_index = 0,
      curve_name = ''Path'', objects = map sphere_of cps,
      collections = [''Control Points''], materials = [''RedControlPointMaterial''],
      curves = []\<rparr>"

definition one_point :: "control_point list" where
  "one_point = [example_point 0 0 0 ''ControlPoint_0'']"

definition two_points :: "control_point list" where
  "two_points = [example_point 1 0 0 ''ControlPoint_0'', example_point 2 0 0 ''ControlPoint_1'']"

definition three_points :: "control_point list" where
  "three_points =
     [example_point 2 0 0 ''ControlPoint_0'', example_point 0 0 0 ''ControlPoint_1'',
      example_point 1 0 0 ''ControlPoint_2'']"

text \<open>
  What a run of an operator leaves: the scene, the names of its curve objects, the
  orders of the splines of its curves. \<open>generated_once\<close> is the three-point scene after
  one run of the generate operator.
\<close>

definition result_scene :: "op_result \<Rightarrow> scene option" where
  "result_scene r = (case r of Inl e \<Rightarrow> None | Inr (s', reports, status) \<Rightarrow> Some s')"


definition spline_orders :: "scene \<Rightarrow> int list" where
  "spline_orders s = map order_u (concat (map splines (curves s)))"


section \<open>Properties\<close>

subsection \<open>Auxiliary facts\<close>

lemma str_nat_digit: "n < 10 \<Longrightarrow> str_nat n = [digit_char n]"
  by (simp add: str_nat.simps)

lemma cleanup_sphere_control_points [simp]:
  "control_points (cleanup_sphere name s) = control_points s"
  by (simp add: cleanup_sphere_def split: option.splits)

lemma cleanup_sphere_active [simp]:
  "active_control_point_index (cleanup_sphere name s) = active_control_point_index s"
  by (simp add: cleanup_sphere_def split: option.splits)

lemma cleanup_all_control_points [simp]:
  "control_points (cleanup_all s) = control_points s"
proof -
  have "control_points (fold (\<lambda>p. cleanup_sphere (sphere_name p)) ps s) = control_points s" for ps
    by (induction ps arbitrary: s) simp_all
  then show ?thesis by (simp add: cleanup_all_def)
qed

lemma set_sphere_name_control_points:
  "control_points (set_sphere_name k name s) =
     (control_points s)[k := (control_points s ! k)\<lparr>sphere_name := name\<rparr>]"
  by (simp add: set_sphere_name_def)

lemma map_update_same: "f y = f (xs ! k) \<Longrightarrow> map f (xs[k := y]) = map f xs"
  by (induction xs arbitrary: k) (auto split: nat.splits)

lemma position_sphere_name [simp]: "position (p\<lparr>sphere_name := name\<rparr>) = position p"
  by (simp add: position_def)

lemma positions_set_sphere_name [simp]: "positions (set_sphere_name k name s) = positions s"
  by (simp add: positions_def set_sphere_name_def map_update_same)

lemma length_set_sphere_name [simp]:
  "length (control_points (set_sphere_name k name s)) = length (control_points s)"
  by (simp add: set_sphere_name_def)

lemma create_sphere_control_points:
  "control_points (create_control_point_sphere k index s) =
     (control_points s)[k := (control_points s ! k)\<lparr>sphere_name := ''ControlPoint_'' @ str_int index\<rparr>]"
  by (simp add: create_control_point_sphere_def Let_def set_sphere_name_def)

lemma create_sphere_active [simp]:
  "active_control_point_index (create_control_point_sphere k index s) = active_control_point_index s"
  by (simp add: create_control_point_sphere_def Let_def set_sphere_name_def)

lemma positions_create_sphere [simp]:
  "positions (create_control_point_sphere k index s) = positions s"
  by (simp add: positions_def create_sphere_control_points map_update_same)

lemma length_create_sphere [simp]:
  "length (control_points (create_control_point_sphere k index s)) = length (control_points s)"
  by (simp add: create_sphere_control_points)

lemma update_coords_eq:
  "update_coords k s = (if k < length (control_points s) then create_control_point_sphere k (int k) s else s)"
proof -
  have "find (\<lambda>i. i = k) xs = (if k \<in> set xs then Some k else None)" for xs
    by (induction xs) auto
  then show ?thesis by (simp add: update_coords_def)
qed

lemma positions_update_coords [simp]: "positions (update_coords k s) = positions s"
  by (simp add: update_coords_eq)

lemma length_update_coords [simp]:
  "length (control_points (update_coords k s)) = length (control_points s)"
  by (simp add: update_coords_eq)

lemma length_positions [simp]: "length (positions s) = length (control_points s)"
  by (simp add: positions_def)

lemma positions_set_x:
  "k < length (control_points s) \<Longrightarrow>
   positions (set_x k a s) = (positions s)[k := (a, snd (positions s ! k))]"
  by (simp add: set_x_def) (simp add: positions_def map_update position_def)

lemma positions_set_y:
  "k < length (control_points s) \<Longrightarrow>
   positions (set_y k b s) = (positions s)[k := (fst (positions s ! k), b, snd (snd (positions s ! k)))]"
  by (simp add: set_y_def) (simp add: positions_def map_update position_def)

lemma positions_set_z:
  "k < length (control_points s) \<Longrightarrow>
   positions (set_z k c s) = (positions s)[k := (fst (positions s ! k), fst (snd (positions s ! k)), c)]"
  by (simp add: set_z_def) (simp add: positions_def map_update position_def)

lemma length_set_x [simp]: "length (control_points (set_x k a s)) = length (control_points s)"
  by (simp add: set_x_def)

lemma length_set_y [simp]: "length (control_points (set_y k a s)) = length (control_points s)"
  by (simp add: set_y_def)

lemma length_set_z [simp]: "length (control_points (set_z k a s)) = length (control_points s)"
  by (simp add: set_z_def)

lemma positions_set_xyz:
  "k < length (control_points s) \<Longrightarrow> positions (set_xyz k v s) = (positions s)[k := v]"
  by (cases v) (simp add: set_xyz_def positions_set_x positions_set_y positions_set_z)

lemma length_set_xyz [simp]:
  "length (control_points (set_xyz k v s)) = length (control_points s)"
  by (cases v) (simp add: set_xyz_def)

lemma positions_fold_resync:
  "positions (fold resync_step is s) = positions s"
  by (induction "is" arbitrary: s) (simp_all add: resync_step_def)

lemma length_fold_resync:
  "length (control_points (fold resync_step is s)) = length (control_points s)"
  by (induction "is" arbitrary: s) (simp_all add: resync_step_def)

lemma active_fold_resync:
  "active_control_point_index (fold resync_step is s) = active_control_point_index s"
  by (induction "is" arbitrary: s) (simp_all add: resync_step_def set_sphere_name_def)

lemma positions_resync_all [simp]: "positions (resync_all s) = positions s"
  by (simp add: resync_all_def positions_fold_resync)


lemma collection_index_nat:
  "k < length xs \<Longrightarrow> collection_index xs (int k) = Inr k"
  by (simp add: collection_index_def)

lemma shift_step_in_range:
  assumes "0 < i" "i \<le> length existing" "i < length (control_points s)"
  shows "shift_step existing (int i) s = Inr (set_xyz i (existing ! (i - 1)) s)"
proof -
  have "nat (int i - 1) = i - 1" by simp
  with assms show ?thesis
    by (simp add: shift_step_def collection_index_nat)
qed

lemma shift_loop:
  assumes "idx \<le> i" "i \<le> length existing" "i < length (control_points s)"
  shows "\<exists>s'. for_each (range_down (int i) (int idx)) (shift_step existing) s = Inr s'
           \<and> length (control_points s') = length (control_points s)
           \<and> positions s' =
               take (Suc idx) (positions s) @ drop idx (take i existing) @ drop (Suc i) (positions s)"
  using assms
proof (induction i arbitrary: s)
  case 0
  then show ?case by (simp add: range_down.simps)
next
  case (Suc i)
  show ?case
  proof (cases "idx = Suc i")
    case True
    then show ?thesis by (simp add: range_down.simps)
  next
    case False
    with Suc.prems have le: "idx \<le> i" by simp
    let ?e = "existing ! i"
    let ?s1 = "set_xyz (Suc i) ?e s"
    have step: "shift_step existing (int (Suc i)) s = Inr ?s1"
      using Suc.prems shift_step_in_range [of "Suc i" existing s] by simp
    have unfold: "range_down (int (Suc i)) (int idx) = int (Suc i) # range_down (int i) (int idx)"
      using le by (subst range_down.simps) simp
    have len1: "length (control_points ?s1) = length (control_points s)" by simp
    have pos1: "positions ?s1 = (positions s)[Suc i := ?e]"
      using Suc.prems by (simp add: positions_set_xyz)
    from Suc.IH [of ?s1] le Suc.prems len1
    obtain s' where s': "for_each (range_down (int i) (int idx)) (shift_step existing) ?s1 = Inr s'"
      "length (control_points s') = length (control_points ?s1)"
      "positions s' = take (Suc idx) (positions ?s1) @ drop idx (take i existing) @ drop (Suc i) (positions ?s1)"
      by auto
    have a: "take (Suc idx) (positions ?s1) = take (Suc idx) (positions s)"
      using le by (simp add: pos1)
    have b: "drop (Suc i) (positions ?s1) = ?e # drop (Suc (Suc i)) (positions s)"
      using Suc.prems by (simp add: pos1 drop_update_cancel Cons_nth_drop_Suc [symmetric])
    have c: "drop idx (take (Suc i) existing) = drop idx (take i existing) @ [?e]"
      using Suc.prems le by (simp add: take_Suc_conv_app_nth)
    have run: "for_each (range_down (int (Suc i)) (int idx)) (shift_step existing) s =
               for_each (range_down (int i) (int idx)) (shift_step existing) ?s1"
      by (simp only: unfold for_each.simps step sum.case)
    have "positions s' =
            take (Suc idx) (positions s) @ drop idx (take (Suc i) existing) @
            drop (Suc (Suc i)) (positions s)"
      by (simp add: s'(3) a b c)
    with s'(1,2) len1 run show ?thesis by simp
  qed
qed

lemma positions_active_update [simp]:
  "positions (s\<lparr>active_control_point_index := a\<rparr>) = positions s"
  by (simp add: positions_def)

lemma positions_collection_add [simp]:
  "positions (collection_add s) = positions s @ [(0, 0, 0)]"
  by (simp add: positions_def collection_add_def default_control_point_def position_def)

lemma length_collection_add [simp]:
  "length (control_points (collection_add s)) = Suc (length (control_points s))"
  by (simp add: collection_add_def)

lemma positions_cleanup_all [simp]: "positions (cleanup_all s) = positions s"
  by (simp add: positions_def)

lemma add_out_of_range:
  assumes "index < 0 \<or> int (length (control_points s)) < index"
  shows "\<exists>s'. add_control_point index s = Inr (s', [], FINISHED)
           \<and> positions s' = positions s @ [(0, 0, 0)]
           \<and> active_control_point_index s' = int (length (control_points s))"
proof -
  let ?n = "length (control_points s)"
  have "(positions s @ [(0, 0, 0)])[length (positions s) := (0, 0, 0)] = positions s @ [(0, 0, 0)]"
    by (simp del: length_positions)
  then have "positions (set_xyz ?n (0, 0, 0) (collection_add s)) = positions s @ [(0, 0, 0)]"
    by (simp add: positions_set_xyz)
  with assms show ?thesis
    by (simp add: add_control_point_def Let_def)
qed

lemma add_in_range:
  assumes "0 \<le> index" "index \<le> int (length (control_points s))"
  shows "\<exists>s'. add_control_point index s = Inr (s', [], FINISHED)
           \<and> positions s' = take (nat index) (positions s) @ (0, 0, 0) # drop (nat index) (positions s)
           \<and> active_control_point_index s' = index"
proof -
  let ?n = "length (control_points s)"
  let ?k = "nat index"
  let ?ps = "positions s"
  let ?s2 = "collection_add (cleanup_all s)"
  have k: "?k \<le> ?n" "int ?k = index" using assms by simp_all
  have "\<exists>s3. for_each (range_down (int ?n) (int ?k)) (shift_step ?ps) ?s2 = Inr s3
           \<and> length (control_points s3) = length (control_points ?s2)
           \<and> positions s3 =
               take (Suc ?k) (positions ?s2) @ drop ?k (take ?n ?ps) @ drop (Suc ?n) (positions ?s2)"
    using k by (intro shift_loop) simp_all
  then obtain s3 where s3:
    "for_each (range_down (int ?n) index) (shift_step ?ps) ?s2 = Inr s3"
    "length (control_points s3) = Suc ?n"
    "positions s3 = take (Suc ?k) (?ps @ [(0, 0, 0)]) @ drop ?k ?ps"
    using k by auto
  have idx: "collection_index (control_points s3) index = Inr ?k"
    using collection_index_nat [of ?k "control_points s3"] k s3(2) by simp
  have "positions (set_xyz ?k (0, 0, 0) s3) = (positions s3)[?k := (0, 0, 0)]"
    using k s3(2) by (simp add: positions_set_xyz)
  also have "\<dots> = take ?k ?ps @ (0, 0, 0) # drop ?k ?ps"
    using k by (simp add: s3(3) list_update_append take_Suc_conv_app_nth nth_append
        split: if_splits) 
  finally have fin: "positions (set_xyz ?k (0, 0, 0) s3) = take ?k ?ps @ (0, 0, 0) # drop ?k ?ps" .
  have not_out: "\<not> (index < 0 \<or> int ?n < index)" using assms by simp
  show ?thesis
    using s3(1) idx fin not_out by (simp add: add_control_point_def Let_def positions_def [symmetric])
qed

lemmas example_defs = example_scene_def example_point_def sphere_of_def one_point_def
  two_points_def three_points_def position_def

lemma str_int_small:
  "str_int 0 = ''0''" "str_int 1 = ''1''" "str_int 2 = ''2''" "str_int 3 = ''3''"
  "str_int (- 1) = ''-1''"
  by (simp_all add: str_int_def str_nat.simps digit_char_def)

subsection \<open>Marker names after a removal\<close>

text \<open>
  Claim C1: after any public operation, every point with a non-empty \<^verbatim>\<open>sphere_name\<close> is
  named \<^verbatim>\<open>ControlPoint_<i>\<close> after its current index; in particular the removal restores
  this for the points after the removed one.

  The removal does not: it cleans up the sphere of the removed point and removes the
  point, and renames nothing. In the scene of two points named after their indices,
  removing the first leaves the other at index 0 under the name \<^verbatim>\<open>ControlPoint_1\<close>.
\<close>

theorem remove_leaves_stale_marker:
  "marker_agreement (example_scene ''BEZIER'' two_points) \<and>
   (\<exists>s'. remove_control_point 0 (example_scene ''BEZIER'' two_points) =
            Inr (s', [(INFO, ''Removed control point 1'')], FINISHED) \<and>
          control_points s' = [example_point 2 0 0 ''ControlPoint_1''] \<and>
          \<not> marker_agreement s')"
  by (simp add: marker_agreement_def remove_control_point_def collection_index_def
      collection_remove_def cleanup_sphere_def example_defs str_int_small enumerate_eq_zip)

subsection \<open>Removal with an index outside the list\<close>

text \<open>
  Claim C3, as stated: a removal with an index outside \<open>[0, length - 1]\<close> fails with
  \<^verbatim>\<open>IndexError\<close>. It does not: on the scene of one point, index 5 raises nothing.
\<close>

theorem remove_out_of_range_no_index_error:
  "remove_control_point 5 (example_scene ''BEZIER'' one_point) \<noteq> Inl IndexError"
  by (simp add: remove_control_point_def example_defs)

text \<open>
  Claim C3, amended: a removal with an index outside \<open>[0, length - 1]\<close> raises no error;
  it reports the warning "Invalid point index" and leaves the scene as it was.
\<close>

theorem remove_out_of_range_warns:
  "index < 0 \<or> int (length (control_points s)) \<le> index \<Longrightarrow>
   \<exists>status. remove_control_point index s =
     Inr (s, [(WARNING, ''Invalid point index'')], status)"
  by (auto simp add: remove_control_point_def)

theorem remove_out_of_range_warns_witness:
  "((5::int) < 0 \<or> int (length (control_points (example_scene ''BEZIER'' one_point))) \<le> 5) \<and>
   (\<exists>status. remove_control_point 5 (example_scene ''BEZIER'' one_point) =
      Inr (example_scene ''BEZIER'' one_point, [(WARNING, ''Invalid point index'')], status))"
  using remove_out_of_range_warns [of 5 "example_scene ''BEZIER'' one_point"]
  by (simp add: example_defs)

subsection \<open>Generating from an empty list\<close>

text \<open>
  Claim C5: generating with no control point is a recoverable failure: the operator
  reports a warning, returns \<^verbatim>\<open>CANCELLED\<close> and leaves the scene as it was, so no curve
  object is created.
\<close>

theorem generate_curve_empty:
  "control_points s = [] \<Longrightarrow>
   generate_curve s = Inr (s, [(WARNING, ''No control points added!'')], CANCELLED)"
  by (simp add: generate_curve_def)

theorem generate_curve_empty_witness:
  "control_points (example_scene ''BEZIER'' []) = [] \<and>
   generate_curve (example_scene ''BEZIER'' []) =
     Inr (example_scene ''BEZIER'' [], [(WARNING, ''No control points added!'')], CANCELLED) \<and>
   curve_objects (example_scene ''BEZIER'' []) = []"
  using generate_curve_empty [of "example_scene ''BEZIER'' []"]
  by (simp add: example_scene_def curve_objects_def)

subsection \<open>Moving a point whose index is outside the list\<close>

text \<open>
  Claim C8: a move is a no-op, or fails silently, whenever it would go out of bounds,
  for every index, the index itself out of range included.

  The operator checks the target index only. On the scene of one point, moving index 1
  up passes the check (the target is 0) and reading the point at index 1 raises
  \<^verbatim>\<open>IndexError\<close>; moving index -1 down passes it too, reads the last point, and leaves a
  sphere named \<^verbatim>\<open>ControlPoint_-1\<close> in the scene.
\<close>

theorem move_control_point_index_out_of_range:
  "move_control_point UP 1 (example_scene ''BEZIER'' one_point) = Inl IndexError \<and>
   (\<exists>s'. move_control_point DOWN (- 1) (example_scene ''BEZIER'' one_point) =
            Inr (s', [], FINISHED) \<and>
          map ob_name (objects s') = [''ControlPoint_-1'', ''ControlPoint_0''] \<and>
          s' \<noteq> example_scene ''BEZIER'' one_point)"
  by (simp add: move_control_point_def collection_index_def collection_move_def Let_def
      cleanup_sphere_def set_sphere_name_def create_control_point_sphere_def example_defs
      str_int_small)

subsection \<open>Adding a point\<close>

text \<open>
  Claim C2: with an index below 0 or above the length, the new point is appended at the
  end; with an index in range, the points at positions from the index on shift right by
  one and the new point takes the index. In both cases the active index is the position
  of the new point. The operator returns in every case.
\<close>

theorem add_control_point_inserts:
  "(index < 0 \<or> int (length (control_points s)) < index \<longrightarrow>
      (\<exists>s'. add_control_point index s = Inr (s', [], FINISHED) \<and>
            positions s' = positions s @ [(0, 0, 0)] \<and>
            active_control_point_index s' = int (length (control_points s)))) \<and>
   (0 \<le> index \<and> index \<le> int (length (control_points s)) \<longrightarrow>
      (\<exists>s'. add_control_point index s = Inr (s', [], FINISHED) \<and>
            positions s' =
              take (nat index) (positions s) @ (0, 0, 0) # drop (nat index) (positions s) \<and>
            (\<forall>i < nat index. positions s' ! i = positions s ! i) \<and>
            positions s' ! nat index = (0, 0, 0) \<and>
            (\<forall>i. nat index \<le> i \<and> i < length (control_points s) \<longrightarrow>
                 positions s' ! Suc i = positions s ! i) \<and>
            active_control_point_index s' = index))"
proof (intro conjI impI)
  assume "index < 0 \<or> int (length (control_points s)) < index"
  then show "\<exists>s'. add_control_point index s = Inr (s', [], FINISHED) \<and>
            positions s' = positions s @ [(0, 0, 0)] \<and>
            active_control_point_index s' = int (length (control_points s))"
    by (rule add_out_of_range)
next
  assume r: "0 \<le> index \<and> index \<le> int (length (control_points s))"
  let ?k = "nat index"
  let ?ps = "positions s"
  from r have k: "?k \<le> length ?ps" by (simp add: nat_le_iff)
  from r obtain s' where s': "add_control_point index s = Inr (s', [], FINISHED)"
    "positions s' = take ?k ?ps @ (0, 0, 0) # drop ?k ?ps"
    "active_control_point_index s' = index"
    using add_in_range [of index s] by auto
  have before: "\<forall>i < ?k. positions s' ! i = ?ps ! i"
    using k by (simp add: s'(2) nth_append del: length_positions)
  have at: "positions s' ! ?k = (0, 0, 0)"
    using k by (simp add: s'(2) nth_append del: length_positions)
  have after: "\<forall>i. ?k \<le> i \<and> i < length (control_points s) \<longrightarrow> positions s' ! Suc i = ?ps ! i"
  proof (intro allI impI)
    fix i assume i: "?k \<le> i \<and> i < length (control_points s)"
    then have "Suc i - ?k = Suc (i - ?k)" by arith
    with i k show "positions s' ! Suc i = ?ps ! i"
      by (simp add: s'(2) nth_append min_def del: length_positions)
  qed
  from s' before at after
  show "\<exists>s'. add_control_point index s = Inr (s', [], FINISHED) \<and>
            positions s' = take ?k ?ps @ (0, 0, 0) # drop ?k ?ps \<and>
            (\<forall>i < ?k. positions s' ! i = ?ps ! i) \<and>
            positions s' ! ?k = (0, 0, 0) \<and>
            (\<forall>i. ?k \<le> i \<and> i < length (control_points s) \<longrightarrow>
                 positions s' ! Suc i = ?ps ! i) \<and>
            active_control_point_index s' = index"
    by blast
qed

theorem add_control_point_inserts_witness:
  "((- 1 :: int) < 0 \<or> int (length (control_points (example_scene ''BEZIER'' two_points))) < - 1) \<and>
   (\<exists>s'. add_control_point (- 1) (example_scene ''BEZIER'' two_points) = Inr (s', [], FINISHED) \<and>
         positions s' = [(1, 0, 0), (2, 0, 0), (0, 0, 0)] \<and>
         active_control_point_index s' = 2) \<and>
   ((0 :: int) \<le> 1 \<and> 1 \<le> int (length (control_points (example_scene ''BEZIER'' two_points)))) \<and>
   (\<exists>s'. add_control_point 1 (example_scene ''BEZIER'' two_points) = Inr (s', [], FINISHED) \<and>
         positions s' = [(1, 0, 0), (0, 0, 0), (2, 0, 0)] \<and>
         active_control_point_index s' = 1)"
proof -
  let ?s = "example_scene ''BEZIER'' two_points"
  have len: "length (control_points ?s) = 2"
    by (simp add: example_defs)
  have ps: "positions ?s = [(1, 0, 0), (2, 0, 0)]"
    by (simp add: positions_def example_defs)
  show ?thesis
    using add_control_point_inserts [of "- 1" ?s] add_control_point_inserts [of 1 ?s]
    by (auto simp add: len ps)
qed

text \<open>
  Claim C7: adding with index -1, with the length and with the length plus 5 all give
  the point sequence of the list with the new point appended, and the length as active
  index. Index -1 and the length plus 5 take the same branch and give the same scene.
\<close>

theorem insert_at_end_equivalence:
  "\<exists>s1 s2 s3.
     add_control_point (- 1) s = Inr (s1, [], FINISHED) \<and>
     add_control_point (int (length (control_points s))) s = Inr (s2, [], FINISHED) \<and>
     add_control_point (int (length (control_points s)) + 5) s = Inr (s3, [], FINISHED) \<and>
     positions s1 = positions s @ [(0, 0, 0)] \<and>
     positions s2 = positions s @ [(0, 0, 0)] \<and>
     positions s3 = positions s @ [(0, 0, 0)] \<and>
     active_control_point_index s1 = int (length (control_points s)) \<and>
     active_control_point_index s2 = int (length (control_points s)) \<and>
     active_control_point_index s3 = int (length (control_points s)) \<and>
     s3 = s1"
proof -
  let ?n = "int (length (control_points s))"
  obtain s1 where s1: "add_control_point (- 1) s = Inr (s1, [], FINISHED)"
    "positions s1 = positions s @ [(0, 0, 0)]" "active_control_point_index s1 = ?n"
    using add_out_of_range [of "- 1" s] by auto
  obtain s2 where s2: "add_control_point ?n s = Inr (s2, [], FINISHED)"
    "positions s2 = positions s @ [(0, 0, 0)]" "active_control_point_index s2 = ?n"
    using add_in_range [of ?n s] by (auto simp del: length_positions simp add: length_positions [symmetric])
  have "add_control_point (?n + 5) s = add_control_point (- 1) s"
    by (simp add: add_control_point_def)
  with s1 s2 show ?thesis by simp
qed

text \<open>
  Claim C10: whatever the scene and the index, the point the operator adds is at
  (0, 0, 0). The operator takes an index and no coordinates; the result holds one point
  more, the point at the insertion position is the origin, and without it the sequence
  is the one before.
\<close>

theorem added_point_at_origin:
  "\<exists>s'. add_control_point index s = Inr (s', [], FINISHED) \<and>
     length (positions s') = Suc (length (positions s)) \<and>
     (let k = (if index < 0 \<or> int (length (control_points s)) < index
               then length (control_points s) else nat index)
      in positions s' ! k = (0, 0, 0) \<and>
         take k (positions s') @ drop (Suc k) (positions s') = positions s)"
proof (cases "index < 0 \<or> int (length (control_points s)) < index")
  case True
  then obtain s' where s': "add_control_point index s = Inr (s', [], FINISHED)"
    "positions s' = positions s @ [(0, 0, 0)]"
    using add_out_of_range [of index s] by auto
  have "length (positions s') = Suc (length (positions s))"
    by (simp add: s'(2) del: length_positions)
  moreover have "positions s' ! length (positions s) = (0, 0, 0)"
    by (simp add: s'(2) del: length_positions)
  moreover have "take (length (positions s)) (positions s') @
      drop (Suc (length (positions s))) (positions s') = positions s"
    by (simp add: s'(2) del: length_positions)
  ultimately show ?thesis
    using True s'(1) by (simp add: Let_def)
next
  case False
  let ?k = "nat index"
  from False have k: "?k \<le> length (positions s)" by (simp add: nat_le_iff)
  from False obtain s' where s': "add_control_point index s = Inr (s', [], FINISHED)"
    "positions s' = take ?k (positions s) @ (0, 0, 0) # drop ?k (positions s)"
    using add_in_range [of index s] by auto
  have "length (positions s') = Suc (length (positions s))"
    using k by (simp add: s'(2) del: length_positions)
  moreover have "positions s' ! ?k = (0, 0, 0)"
    using k by (simp add: s'(2) nth_append del: length_positions)
  moreover have "take ?k (positions s') @ drop (Suc ?k) (positions s') = positions s"
    using k by (simp add: s'(2) min_def del: length_positions)
  ultimately show ?thesis
    using False s'(1) by (simp add: Let_def)
qed

subsection \<open>Generating a curve\<close>

text \<open>
  The two loops over \<^verbatim>\<open>enumerate(control_points)\<close> assign every point of the spline:
  the spline holds as many points as the list, so no index is out of range.
\<close>

lemma nurbs_loop:
  "length (points sp) = m + length cps \<Longrightarrow>
   for_each (enumerate m cps) nurbs_step sp =
     Inr (sp\<lparr>points := take m (points sp) @ map (\<lambda>p. (cp_x p, cp_y p, cp_z p, 1)) cps\<rparr>)"
proof (induction cps arbitrary: m sp)
  case Nil
  then show ?case by simp
next
  case (Cons p cps)
  let ?sp = "sp\<lparr>points := (points sp)[m := (cp_x p, cp_y p, cp_z p, 1)]\<rparr>"
  have step: "nurbs_step (m, p) sp = Inr ?sp"
    using Cons.prems by (simp add: nurbs_step_def collection_index_nat)
  have "length (points ?sp) = Suc m + length cps"
    using Cons.prems by simp
  from Cons.IH [OF this]
  have "for_each (enumerate (Suc m) cps) nurbs_step ?sp =
          Inr (?sp\<lparr>points := take (Suc m) (points ?sp) @ map (\<lambda>p. (cp_x p, cp_y p, cp_z p, 1)) cps\<rparr>)" .
  moreover have "take (Suc m) (points ?sp) = take m (points sp) @ [(cp_x p, cp_y p, cp_z p, 1)]"
    using Cons.prems by (simp add: take_Suc_conv_app_nth)
  ultimately show ?case
    by (simp add: step)
qed



lemma build_spline_nurbs:
  assumes "cps \<noteq> []"
  shows "build_spline ''NURBS'' cps =
     Inr \<lparr>spline_kind = NURBS, points = map (\<lambda>p. (cp_x p, cp_y p, cp_z p, 1)) cps,
          bezier_points = [], order_u = max 2 (min 4 (int (length cps))),
          use_endpoint_u = True\<rparr>"
proof -
  let ?sp = "points_add (int (length cps) - 1) (splines_new NURBS)"
  from assms have "nat (int (length cps) - 1) = length cps - 1" "0 < length cps" by simp_all
  then have len: "length (points ?sp) = 0 + length cps"
    by (simp add: points_add_def splines_new_def)
  have bound: "min 64 (min 4 (int (length cps))) = min 4 (int (length cps))"
    by simp
  show ?thesis
    by (simp add: build_spline_def nurbs_loop [OF len] order_u_set_def bound)
      (simp add: points_add_def splines_new_def)
qed





text \<open>
  Claim C4, as stated: a NURBS curve generated from \<open>n\<close> points has a spline of order
  \<open>min 4 n\<close>, so order 1 for one point. It has not: the code assigns 1 and the host keeps
  the order at 2 or above, so the spline generated from one point has order 2.
\<close>

theorem generate_curve_nurbs_one_point_order:
  "map_option spline_orders
     (result_scene (generate_curve (example_scene ''NURBS'' one_point))) = Some [2] \<and>
   min 4 (int (length one_point)) = 1"
  by (simp add: generate_curve_def build_spline_nurbs Let_def result_scene_def spline_orders_def
      example_defs)

text \<open>
  Claim C4, amended: from a non-empty list of \<open>n\<close> points and the curve type "NURBS", the
  operator returns \<^verbatim>\<open>FINISHED\<close> and creates a curve whose one spline is a NURBS spline of
  order \<open>max 2 (min 4 n)\<close> (the code assigns \<open>min 4 n\<close> and the host keeps the order at 2 or
  above: orders 2, 2, 3, 4 for 1, 2, 3, 10 points, that is \<open>min 4 n\<close> from two points on),
  with endpoint interpolation on, and whose points are the (x, y, z, 1) of the control
  points in list order.
\<close>

theorem generate_curve_nurbs:
  assumes "curve_type s = ''NURBS''" and "control_points s \<noteq> []"
  shows "\<exists>s' cd ob sp.
     generate_curve s =
       Inr (s', [(INFO, ''Generated NURBS curve: '' @
                   (if curve_name s \<noteq> [] then curve_name s else ''GeneratedCurve''))],
            FINISHED) \<and>
     curves s' = curves s @ [cd] \<and> objects s' = objects s @ [ob] \<and>
     ob_data ob = Curve cd \<and> splines cd = [sp] \<and>
     spline_kind sp = NURBS \<and>
     points sp = map (\<lambda>p. (cp_x p, cp_y p, cp_z p, 1)) (control_points s) \<and>
     order_u sp = max 2 (min 4 (int (length (control_points s)))) \<and>
     (2 \<le> length (control_points s) \<longrightarrow>
        order_u sp = min 4 (int (length (control_points s)))) \<and>
     use_endpoint_u sp = True"
proof -
  let ?sp = "\<lparr>spline_kind = NURBS,
              points = map (\<lambda>p. (cp_x p, cp_y p, cp_z p, 1)) (control_points s),
              bezier_points = [], order_u = max 2 (min 4 (int (length (control_points s)))),
              use_endpoint_u = True\<rparr>"
  let ?name = "if curve_name s \<noteq> [] then curve_name s else ''GeneratedCurve''"
  let ?cd = "\<lparr>cu_name = host_unique_name (map cu_name (curves s)) ?name,
              dimensions = ''3D'', splines = [?sp]\<rparr>"
  let ?ob = "\<lparr>ob_name = host_unique_name (map ob_name (objects s)) (?name @ ''Obj''),
              ob_location = (0, 0, 0), users_collection = [''Scene Collection''],
              ob_materials = [], ob_data = Curve ?cd\<rparr>"
  let ?s' = "s\<lparr>curves := curves s @ [?cd], objects := objects s @ [?ob]\<rparr>"
  have run: "generate_curve s =
       Inr (?s', [(INFO, ''Generated NURBS curve: '' @ ?name)], FINISHED)"
    using assms by (simp add: generate_curve_def build_spline_nurbs Let_def)
  have ord: "2 \<le> length (control_points s) \<longrightarrow>
      order_u ?sp = min 4 (int (length (control_points s)))"
    by simp
  from run ord show ?thesis
    by (intro exI [of _ ?s'] exI [of _ ?cd] exI [of _ ?ob] exI [of _ ?sp]) simp
qed

theorem generate_curve_nurbs_witness:
  "curve_type (example_scene ''NURBS'' three_points) = ''NURBS'' \<and>
   control_points (example_scene ''NURBS'' three_points) \<noteq> [] \<and>
   (\<exists>s' cd sp. generate_curve (example_scene ''NURBS'' three_points) =
        Inr (s', [(INFO, ''Generated NURBS curve: Path'')], FINISHED) \<and>
      curves s' = [cd] \<and> splines cd = [sp] \<and>
      points sp = [(2, 0, 0, 1), (0, 0, 0, 1), (1, 0, 0, 1)] \<and>
      order_u sp = 3 \<and> use_endpoint_u sp = True) \<and>
   curve_type (example_scene ''NURBS'' one_point) = ''NURBS'' \<and>
   control_points (example_scene ''NURBS'' one_point) \<noteq> [] \<and>
   (\<exists>s' cd sp. generate_curve (example_scene ''NURBS'' one_point) =
        Inr (s', [(INFO, ''Generated NURBS curve: Path'')], FINISHED) \<and>
      curves s' = [cd] \<and> splines cd = [sp] \<and>
      points sp = [(0, 0, 0, 1)] \<and>
      order_u sp = 2 \<and> use_endpoint_u sp = True)"
proof -
  let ?s = "example_scene ''NURBS'' three_points"
  let ?t = "example_scene ''NURBS'' one_point"
  have a: "curve_type ?s = ''NURBS''" and b: "control_points ?s \<noteq> []"
    and a1: "curve_type ?t = ''NURBS''" and b1: "control_points ?t \<noteq> []"
    by (simp_all add: example_defs)
  have c: "curve_name ?s = ''Path''" "length (control_points ?s) = 3" "curves ?s = []"
    "map (\<lambda>p. (cp_x p, cp_y p, cp_z p, 1)) (control_points ?s) =
       [(2, 0, 0, 1), (0, 0, 0, 1), (1, 0, 0, 1)]"
    by (simp_all add: example_defs)
  have c1: "curve_name ?t = ''Path''" "length (control_points ?t) = 1" "curves ?t = []"
    "map (\<lambda>p. (cp_x p, cp_y p, cp_z p, 1)) (control_points ?t) = [(0, 0, 0, 1)]"
    by (simp_all add: example_defs)
  have three: "\<exists>s' cd sp. generate_curve ?s =
        Inr (s', [(INFO, ''Generated NURBS curve: Path'')], FINISHED) \<and>
      curves s' = [cd] \<and> splines cd = [sp] \<and>
      points sp = [(2, 0, 0, 1), (0, 0, 0, 1), (1, 0, 0, 1)] \<and>
      order_u sp = 3 \<and> use_endpoint_u sp = True"
    using generate_curve_nurbs [OF a b] by (simp add: c) blast
  have one: "\<exists>s' cd sp. generate_curve ?t =
        Inr (s', [(INFO, ''Generated NURBS curve: Path'')], FINISHED) \<and>
      curves s' = [cd] \<and> splines cd = [sp] \<and>
      points sp = [(0, 0, 0, 1)] \<and>
      order_u sp = 2 \<and> use_endpoint_u sp = True"
    using generate_curve_nurbs [OF a1 b1] by (simp add: c1) blast
  from a b a1 b1 three one show ?thesis by blast
qed




subsection \<open>Reordering\<close>

text \<open>
  The host's \<^verbatim>\<open>move\<close>, position by position: the item moved lands on the new index, the
  items between the two indices shift by one towards the old index, the others stay.
  Moving back restores the list.
\<close>

lemma length_collection_move [simp]: "length (collection_move a b xs) = length xs"
  by (auto simp add: collection_move_def Let_def min_def)

lemma map_collection_move: "map f (collection_move a b xs) = collection_move a b (map f xs)"
  by (auto simp add: collection_move_def Let_def take_map drop_map nat_less_iff)

lemma nth_insert_at:
  "b \<le> length ys \<Longrightarrow>
   (take b ys @ v # drop b ys) ! i = (if i < b then ys ! i else if i = b then v else ys ! (i - 1))"
  by (auto simp add: nth_append nth_Cons' min_def)

lemma nth_delete_at:
  "a < length xs \<Longrightarrow> j < length xs - 1 \<Longrightarrow>
   (take a xs @ drop (Suc a) xs) ! j = (if j < a then xs ! j else xs ! Suc j)"
  by (auto simp add: nth_append min_def)

lemma collection_move_nth:
  assumes "a < length xs" "b < length xs" "i < length xs"
  shows "collection_move (int a) (int b) xs ! i =
     (if i = b then xs ! a
      else if a \<le> i \<and> i < b then xs ! Suc i
      else if b < i \<and> i \<le> a then xs ! (i - 1)
      else xs ! i)"
proof (cases "a = b")
  case True
  then show ?thesis by (simp add: collection_move_def)
next
  case False
  define rest where "rest = take a xs @ drop (Suc a) xs"
  have len: "length rest = length xs - 1"
    using assms by (simp add: rest_def)
  have rest: "rest ! j = (if j < a then xs ! j else xs ! Suc j)" if "j < length xs - 1" for j
    unfolding rest_def using assms(1) that by (rule nth_delete_at)
  have mv: "collection_move (int a) (int b) xs = take b rest @ xs ! a # drop b rest"
    using assms False by (simp add: collection_move_def Let_def rest_def)
  have b: "b \<le> length rest" using assms len by simp
  have ins: "collection_move (int a) (int b) xs ! i =
      (if i < b then rest ! i else if i = b then xs ! a else rest ! (i - 1))"
    unfolding mv using b by (rule nth_insert_at)
  show ?thesis
  proof (cases "i < b")
    case True
    with assms have "i < length xs - 1" by simp
    from rest [OF this] True False ins show ?thesis by auto
  next
    case nlt: False
    show ?thesis
    proof (cases "i = b")
      case True
      with ins show ?thesis by simp
    next
      case False
      with nlt have gt: "b < i" by simp
      with assms have "i - 1 < length xs - 1" by simp
      from rest [OF this] gt ins \<open>a \<noteq> b\<close> show ?thesis by auto
    qed
  qed
qed

lemma collection_move_round_trip:
  assumes "a < length xs" "b < length xs"
  shows "collection_move (int b) (int a) (collection_move (int a) (int b) xs) = xs"
proof (rule nth_equalityI)
  show "length (collection_move (int b) (int a) (collection_move (int a) (int b) xs)) = length xs"
    by simp
next
  fix i assume "i < length (collection_move (int b) (int a) (collection_move (int a) (int b) xs))"
  then have i: "i < length xs" by simp
  let ?ys = "collection_move (int a) (int b) xs"
  have ys: "?ys ! j =
     (if j = b then xs ! a
      else if a \<le> j \<and> j < b then xs ! Suc j
      else if b < j \<and> j \<le> a then xs ! (j - 1)
      else xs ! j)" if "j < length xs" for j
    using assms that by (rule collection_move_nth)
  have "collection_move (int b) (int a) ?ys ! i =
     (if i = a then ?ys ! b
      else if b \<le> i \<and> i < a then ?ys ! Suc i
      else if a < i \<and> i \<le> b then ?ys ! (i - 1)
      else ?ys ! i)"
    using assms i by (intro collection_move_nth) simp_all
  also have "\<dots> = xs ! i"
    using assms i by (auto simp add: ys)
  finally show "collection_move (int b) (int a) ?ys ! i = xs ! i" .
qed

lemma reorder_result:
  "\<exists>s'. reorder_control_point a b s = Inr (s', [], FINISHED) \<and>
        positions s' = collection_move a b (positions s) \<and>
        active_control_point_index s' = b"
proof -
  let ?s2 = "(cleanup_all s)\<lparr>control_points := collection_move a b (control_points (cleanup_all s))\<rparr>"
  have "positions ?s2 = collection_move a b (positions s)"
    by (simp add: positions_def map_collection_move)
  then show ?thesis
    by (simp add: reorder_control_point_def Let_def)
qed

text \<open>
  Claim C6: with both indices in the list, the reorder operator returns, puts the point
  of the old index on the new index, shifts the points between the two by one (it does
  not swap the two), leaves the others in place and sets the active index to the new
  index; reordering back from the new index to the old one restores the original order.
\<close>

theorem reorder_control_point_repositions:
  assumes "0 \<le> a" "a < int (length (control_points s))"
    and "0 \<le> b" "b < int (length (control_points s))"
  shows "\<exists>s'. reorder_control_point a b s = Inr (s', [], FINISHED) \<and>
     active_control_point_index s' = b \<and>
     length (positions s') = length (positions s) \<and>
     positions s' ! nat b = positions s ! nat a \<and>
     (\<forall>i < length (positions s).
        positions s' ! i =
          (if i = nat b then positions s ! nat a
           else if nat a \<le> i \<and> i < nat b then positions s ! Suc i
           else if nat b < i \<and> i \<le> nat a then positions s ! (i - 1)
           else positions s ! i)) \<and>
     (\<exists>s''. reorder_control_point b a s' = Inr (s'', [], FINISHED) \<and>
        positions s'' = positions s \<and>
        active_control_point_index s'' = a)"
proof -
  let ?ps = "positions s"
  from assms have a: "nat a < length ?ps" "int (nat a) = a"
    and b: "nat b < length ?ps" "int (nat b) = b"
    by simp_all
  obtain s' where s': "reorder_control_point a b s = Inr (s', [], FINISHED)"
    "positions s' = collection_move a b ?ps" "active_control_point_index s' = b"
    using reorder_result [of a b s] by auto
  obtain s'' where s'': "reorder_control_point b a s' = Inr (s'', [], FINISHED)"
    "positions s'' = collection_move b a (positions s')" "active_control_point_index s'' = a"
    using reorder_result [of b a s'] by auto
  have nth: "positions s' ! i =
          (if i = nat b then ?ps ! nat a
           else if nat a \<le> i \<and> i < nat b then ?ps ! Suc i
           else if nat b < i \<and> i \<le> nat a then ?ps ! (i - 1)
           else ?ps ! i)" if "i < length ?ps" for i
    using collection_move_nth [OF a(1) b(1) that] by (simp only: s'(2) a(2) b(2))
  have len: "length (positions s') = length ?ps"
    by (simp only: s'(2) length_collection_move)
  have moved: "positions s' ! nat b = ?ps ! nat a"
    using nth [OF b(1)] by simp
  have restored: "positions s'' = ?ps"
    using collection_move_round_trip [OF a(1) b(1)] by (simp only: s''(2) s'(2) a(2) b(2))
  from s'(1,3) len moved nth s''(1,3) restored show ?thesis by blast
qed

theorem reorder_control_point_repositions_witness:
  "(0::int) \<le> 0 \<and> 0 < int (length (control_points (example_scene ''BEZIER'' three_points))) \<and>
   (0::int) \<le> 2 \<and> 2 < int (length (control_points (example_scene ''BEZIER'' three_points))) \<and>
   (\<exists>s'. reorder_control_point 0 2 (example_scene ''BEZIER'' three_points) =
           Inr (s', [], FINISHED) \<and>
         active_control_point_index s' = 2 \<and>
         positions s' = [(0, 0, 0), (1, 0, 0), (2, 0, 0)] \<and>
         (\<exists>s''. reorder_control_point 2 0 s' = Inr (s'', [], FINISHED) \<and>
            positions s'' = [(2, 0, 0), (0, 0, 0), (1, 0, 0)] \<and>
            active_control_point_index s'' = 0))"
proof -
  let ?s = "example_scene ''BEZIER'' three_points"
  have len: "length (control_points ?s) = 3"
    by (simp add: example_defs)
  have ps: "positions ?s = [(2, 0, 0), (0, 0, 0), (1, 0, 0)]"
    by (simp add: positions_def example_defs)
  have h: "(0::int) \<le> 0" "0 < int (length (control_points ?s))"
    "(0::int) \<le> 2" "2 < int (length (control_points ?s))"
    by (simp_all add: len)
  from reorder_control_point_repositions [OF h]
  obtain s' s'' where r0: "reorder_control_point 0 2 ?s = Inr (s', [], FINISHED)"
    "active_control_point_index s' = 2"
    "length (positions s') = length (positions ?s)"
    "\<forall>i < length (positions ?s). positions s' ! i =
          (if i = nat 2 then positions ?s ! nat 0
           else if nat 0 \<le> i \<and> i < nat 2 then positions ?s ! Suc i
           else if nat 2 < i \<and> i \<le> nat 0 then positions ?s ! (i - 1)
           else positions ?s ! i)"
    "reorder_control_point 2 0 s' = Inr (s'', [], FINISHED)"
    "positions s'' = positions ?s" "active_control_point_index s'' = 0"
    by blast
  have r: "length (positions s') = 3"
    "positions s' ! 0 = (0, 0, 0)" "positions s' ! 1 = (1, 0, 0)" "positions s' ! 2 = (2, 0, 0)"
    using r0(3) r0(4) by (simp_all add: ps del: length_positions)
  have "positions s' = [(0, 0, 0), (1, 0, 0), (2, 0, 0)]"
  proof (rule nth_equalityI)
    show "length (positions s') = length [(0, 0, 0), (1, 0, 0), (2::real, 0::real, 0::real)]"
      using r(1) by (simp del: length_positions)
  next
    fix i assume "i < length (positions s')"
    then have "i < 3" using r(1) by (simp del: length_positions)
    then have "i = 0 \<or> i = 1 \<or> i = 2" by arith
    then show "positions s' ! i = [(0, 0, 0), (1, 0, 0), (2, 0, 0)] ! i"
      using r(2-4) by auto
  qed
  with r0 h ps show ?thesis by auto
qed

subsection \<open>The renaming loop\<close>

text \<open>
  The loop that renames every point after its index leaves every name in agreement with
  the index, whatever the names were; so does the reorder operator, which ends with it.
\<close>

lemma marker_agreement_iff:
  "marker_agreement s \<longleftrightarrow>
     (\<forall>i < length (control_points s).
        sphere_name (control_points s ! i) = [] \<or>
        sphere_name (control_points s ! i) = ''ControlPoint_'' @ str_int (int i))"
  by (simp add: marker_agreement_def list_all_length nth_enumerate_eq)

lemma resync_step_control_points:
  "control_points (resync_step i s) =
     (control_points s)[i := (control_points s ! i)\<lparr>sphere_name := ''ControlPoint_'' @ str_int (int i)\<rparr>]"
  by (cases "i < length (control_points s)")
    (simp_all add: resync_step_def create_sphere_control_points set_sphere_name_control_points
      list_update_beyond)

lemma names_fold_resync:
  "m \<le> length (control_points s) \<Longrightarrow> i < m \<Longrightarrow>
   sphere_name (control_points (fold resync_step [0..<m] s) ! i) = ''ControlPoint_'' @ str_int (int i)"
proof (induction m arbitrary: i)
  case 0
  then show ?case by simp
next
  case (Suc m)
  let ?s1 = "fold resync_step [0..<m] s"
  have len: "length (control_points ?s1) = length (control_points s)"
    by (rule length_fold_resync)
  show ?case
  proof (cases "i = m")
    case True
    with Suc.prems len show ?thesis
      by (simp add: resync_step_control_points)
  next
    case False
    with Suc.prems have "i < m" by simp
    with Suc.IH [of i] Suc.prems False show ?thesis
      by (simp add: resync_step_control_points)
  qed
qed

lemma marker_agreement_resync_all: "marker_agreement (resync_all s)"
  unfolding marker_agreement_iff
  by (simp add: resync_all_def length_fold_resync names_fold_resync)

lemma marker_agreement_active_update [simp]:
  "marker_agreement (s\<lparr>active_control_point_index := a\<rparr>) = marker_agreement s"
  by (simp add: marker_agreement_def)

lemma reorder_restores_marker_agreement:
  "\<exists>s'. reorder_control_point a b s = Inr (s', [], FINISHED) \<and> marker_agreement s'"
  by (simp add: reorder_control_point_def Let_def marker_agreement_resync_all)

subsection \<open>Moving a point inside the list\<close>

text \<open>
  With the index and its neighbour both in the list, the move operator returns, swaps
  the two points and sets the active index to the new position of the point moved.
\<close>

lemma collection_index_int:
  "0 \<le> i \<Longrightarrow> i < int (length xs) \<Longrightarrow> collection_index xs i = Inr (nat i)"
  by (simp add: collection_index_def)

lemma positions_control_points_update:
  "positions (s\<lparr>control_points := cps\<rparr>) = map position cps"
  by (simp add: positions_def)

lemma collection_move_adjacent:
  assumes "a < length xs" "b < length xs" "b = Suc a \<or> a = Suc b"
  shows "collection_move (int a) (int b) xs = xs[a := xs ! b, b := xs ! a]"
proof (rule nth_equalityI)
  show "length (collection_move (int a) (int b) xs) = length (xs[a := xs ! b, b := xs ! a])"
    by simp
next
  fix i assume "i < length (collection_move (int a) (int b) xs)"
  then have i: "i < length xs" by simp
  from collection_move_nth [OF assms(1,2) i] assms i
  show "collection_move (int a) (int b) xs ! i = xs[a := xs ! b, b := xs ! a] ! i"
    by (auto simp add: nth_list_update)
qed

lemma move_control_point_in_range:
  assumes "0 \<le> index" "index < int (length (control_points s))"
    and "new_index = (if dir = UP then index - 1 else index + 1)"
    and "0 \<le> new_index" "new_index < int (length (control_points s))"
  shows "\<exists>s'. move_control_point dir index s = Inr (s', [], FINISHED) \<and>
     active_control_point_index s' = new_index \<and>
     positions s' = (positions s)[nat index := positions s ! nat new_index,
                                  nat new_index := positions s ! nat index]"
proof -
  let ?n = "length (control_points s)"
  let ?s3 = "(cleanup_sphere (sphere_name (control_points s ! nat new_index))
               (cleanup_sphere (sphere_name (control_points s ! nat index)) s))
             \<lparr>control_points := collection_move index new_index (control_points s)\<rparr>"
  let ?s4 = "?s3\<lparr>active_control_point_index := new_index\<rparr>"
  let ?s5 = "set_sphere_name (nat index) (''ControlPoint_'' @ str_int index) ?s4"
  let ?s6 = "set_sphere_name (nat new_index) (''ControlPoint_'' @ str_int new_index) ?s5"
  let ?s7 = "create_control_point_sphere (nat index) index ?s6"
  let ?s8 = "create_control_point_sphere (nat new_index) new_index ?s7"
  have guard: "0 \<le> (if dir = UP then index - 1 else index + 1) \<and>
      (if dir = UP then index - 1 else index + 1) < int ?n"
    using assms by simp
  have i0: "collection_index (control_points s) index = Inr (nat index)"
    "collection_index (control_points s) new_index = Inr (nat new_index)"
    using assms by (simp_all add: collection_index_int)
  have i4: "collection_index (control_points ?s4) index = Inr (nat index)"
    using assms by (simp add: collection_index_int)
  have i5: "collection_index (control_points ?s5) new_index = Inr (nat new_index)"
    using assms by (simp add: collection_index_int)
  have i6: "collection_index (control_points ?s6) index = Inr (nat index)"
    using assms by (simp add: collection_index_int)
  have i7: "collection_index (control_points ?s7) new_index = Inr (nat new_index)"
    using assms by (simp add: collection_index_int)
  have run: "move_control_point dir index s = Inr (?s8, [], FINISHED)"
    unfolding move_control_point_def Let_def assms(3) [symmetric]
    using assms(1,2,4,5) i0 i4 i5 i6 i7
    by (simp only: simp_thms if_True sum.case cleanup_sphere_control_points)
  have pos: "positions ?s8 = collection_move index new_index (positions s)"
    by (simp add: positions_control_points_update map_collection_move positions_def [symmetric])
  have act: "active_control_point_index ?s8 = new_index"
    by (simp add: set_sphere_name_def)
  have a: "nat index < length (positions s)" "int (nat index) = index"
    and b: "nat new_index < length (positions s)" "int (nat new_index) = new_index"
    using assms by simp_all
  have adj: "nat new_index = Suc (nat index) \<or> nat index = Suc (nat new_index)"
    using assms by (auto split: if_splits)
  have "collection_move index new_index (positions s) =
      (positions s)[nat index := positions s ! nat new_index,
                    nat new_index := positions s ! nat index]"
    using collection_move_adjacent [OF a(1) b(1) adj] by (simp only: a(2) b(2))
  with run pos act show ?thesis by (simp del: length_positions)
qed

end
